theory Spec2Isabelle
  imports Complex_Main
begin

section \<open>Values, errors and the Python operations the code relies on\<close>

text \<open>
  The three stages of the repository (site locator, granule finder, temporal matcher) read
  untyped JSON with dynamic key lookups. A decoded JSON document is a value of \<open>json\<close>; an
  object is an association list read with \<open>map_of\<close>. Every exception the code can raise is
  a value of \<open>error\<close>, and a function that can raise returns \<open>error + 'a\<close>.
\<close>

datatype json =
    JNull
  | JBool bool
  | JInt int
  | JFloat rat
  | JStr string
  | JArr "json list"
  | JObj "(string \<times> json) list"

datatype error =
    KeyError
  | IndexError
  | TypeError
  | ValueError
  | OverflowError
  | JSONDecodeError
  | ConnectionError
  | AttributeError
  | DuplicateLabels

text \<open>Sequencing of computations that may raise: the first exception aborts the rest.\<close>

definition bind_err :: "error + 'a \<Rightarrow> ('a \<Rightarrow> error + 'b) \<Rightarrow> error + 'b" where
  "bind_err m f = (case m of Inl e \<Rightarrow> Inl e | Inr v \<Rightarrow> f v)"

fun map_err :: "('a \<Rightarrow> error + 'b) \<Rightarrow> 'a list \<Rightarrow> error + 'b list" where
  "map_err f [] = Inr []"
| "map_err f (x # xs) =
     bind_err (f x) (\<lambda>y. bind_err (map_err f xs) (\<lambda>ys. Inr (y # ys)))"

text \<open>Python's \<^verbatim>\<open>p in s\<close> on two strings: \<open>p\<close> occurs somewhere in \<open>s\<close>.\<close>

fun starts_with :: "string \<Rightarrow> string \<Rightarrow> bool" where
  "starts_with [] s = True"
| "starts_with (p # ps) [] = False"
| "starts_with (p # ps) (c # cs) = (p = c \<and> starts_with ps cs)"

fun is_substr :: "string \<Rightarrow> string \<Rightarrow> bool" where
  "is_substr p [] = (p = [])"
| "is_substr p (c # cs) = (starts_with p (c # cs) \<or> is_substr p cs)"

text \<open>Truthiness of a decoded JSON value (\<^verbatim>\<open>if x:\<close>).\<close>

fun py_truthy :: "json \<Rightarrow> bool" where
  "py_truthy JNull = False"
| "py_truthy (JBool b) = b"
| "py_truthy (JInt n) = (n \<noteq> 0)"
| "py_truthy (JFloat r) = (r \<noteq> 0)"
| "py_truthy (JStr s) = (s \<noteq> [])"
| "py_truthy (JArr xs) = (xs \<noteq> [])"
| "py_truthy (JObj kvs) = (kvs \<noteq> [])"

text \<open>\<^verbatim>\<open>x[k]\<close> with a string key: only a dict can be subscripted by a string.\<close>

fun py_getitem :: "json \<Rightarrow> string \<Rightarrow> error + json" where
  "py_getitem (JObj kvs) k = (case map_of kvs k of None \<Rightarrow> Inl KeyError | Some v \<Rightarrow> Inr v)"
| "py_getitem _ k = Inl TypeError"

text \<open>\<^verbatim>\<open>x[0]\<close>: the keys of a decoded JSON object are strings, so 0 is never a key.\<close>

fun py_getitem0 :: "json \<Rightarrow> error + json" where
  "py_getitem0 (JArr []) = Inl IndexError"
| "py_getitem0 (JArr (x # xs)) = Inr x"
| "py_getitem0 (JStr []) = Inl IndexError"
| "py_getitem0 (JStr (c # cs)) = Inr (JStr [c])"
| "py_getitem0 (JObj kvs) = Inl KeyError"
| "py_getitem0 _ = Inl TypeError"

text \<open>\<^verbatim>\<open>k in x\<close> for a string \<open>k\<close>: key of a dict, element of a list, substring of a string.\<close>

fun py_in :: "string \<Rightarrow> json \<Rightarrow> error + bool" where
  "py_in k (JObj kvs) = Inr (k \<in> set (map fst kvs))"
| "py_in k (JArr xs) = Inr (JStr k \<in> set xs)"
| "py_in k (JStr s) = Inr (is_substr k s)"
| "py_in k _ = Inl TypeError"

text \<open>\<^verbatim>\<open>for v in x\<close>: elements of a list, keys of a dict, characters of a string.\<close>

fun py_iter :: "json \<Rightarrow> error + json list" where
  "py_iter (JArr xs) = Inr xs"
| "py_iter (JObj kvs) = Inr (map JStr (remdups (map fst kvs)))"
| "py_iter (JStr s) = Inr (map (\<lambda>c. JStr [c]) s)"
| "py_iter _ = Inl TypeError"

section \<open>The remote services\<close>

text \<open>
  A response carries the status code, the body as text and the body decoded as JSON
  (\<open>None\<close> when \<^verbatim>\<open>response.json()\<close> raises). The transport is a function from the request
  to an exception or a response: the remote source is taken to answer the same request in
  the same way during one run. The time-series request carries the window bounds that the
  code formats into the URL.
\<close>

record response =
  status_code :: int
  body_text :: string
  json_body :: "json option"

datatype request =
    Site_query string string "(string \<times> string) option"
  | Collection_lookup string
  | Granule_search json nat nat string string
  | Iv_query string string int int

type_synonym http = "request \<Rightarrow> error + response"

definition response_json :: "response \<Rightarrow> error + json" where
  "response_json r = (case json_body r of None \<Rightarrow> Inl JSONDecodeError | Some j \<Rightarrow> Inr j)"

section \<open>Timestamps\<close>

text \<open>
  A pandas timestamp is a number of nanoseconds since the epoch in a signed 64-bit range,
  or the missing value \<open>NaT\<close>; a time difference is a number of nanoseconds in the same
  range, or missing (\<open>None\<close>). Arithmetic that leaves the range raises. The parser
  \<^verbatim>\<open>pd.to_datetime\<close> belongs to the library, so it is a parameter of the matcher.
\<close>

datatype datetime = NaT | Timestamp int

type_synonym to_datetime = "json \<Rightarrow> error + datetime"

definition Timedelta_max :: int where
  "Timedelta_max = 9223372036854775807"

definition Timestamp_min :: int where
  "Timestamp_min = - 9223372036854775807"

definition Timestamp_max :: int where
  "Timestamp_max = 9223372036854775807"

definition minutes :: "int \<Rightarrow> int" where
  "minutes m = m * 60000000000"

text \<open>\<^verbatim>\<open>abs(result_time - granule_time)\<close>\<close>

fun time_between :: "datetime \<Rightarrow> datetime \<Rightarrow> error + int option" where
  "time_between (Timestamp a) (Timestamp b) =
     (if Timedelta_max < \<bar>a - b\<bar> then Inl OverflowError else Inr (Some \<bar>a - b\<bar>))"
| "time_between _ _ = Inr None"

section \<open>Temporal matcher: \<^verbatim>\<open>get_granule_results\<close>\<close>

record reading =
  result :: json
  result_unit :: json
  result_time :: json

definition reading_of :: "json \<Rightarrow> json \<Rightarrow> error + reading" where
  "reading_of ts v =
     bind_err (py_getitem v ''value'') (\<lambda>r.
     bind_err (py_getitem ts ''variable'') (\<lambda>var.
     bind_err (py_getitem var ''unit'') (\<lambda>u.
     bind_err (py_getitem u ''unitCode'') (\<lambda>uc.
     bind_err (py_getitem v ''dateTime'') (\<lambda>dt.
       Inr \<lparr>result = r, result_unit = uc, result_time = dt\<rparr>)))))"

text \<open>The inner loop \<^verbatim>\<open>for value in ts['values'][0]['value']\<close> for one time series.\<close>

definition ts_readings :: "json \<Rightarrow> error + reading list" where
  "ts_readings ts =
     bind_err (py_getitem ts ''values'') (\<lambda>groups.
     bind_err (py_getitem0 groups) (\<lambda>g0.
     bind_err (py_getitem g0 ''value'') (\<lambda>vals.
     bind_err (py_iter vals) (\<lambda>vs. map_err (reading_of ts) vs))))"

definition get_granule_results ::
  "http \<Rightarrow> string \<Rightarrow> string \<Rightarrow> datetime \<Rightarrow> int \<Rightarrow> error + reading list" where
  "get_granule_results http site_no param_cd granule_time time_window =
     (case granule_time of
        NaT \<Rightarrow> Inl ValueError
      | Timestamp t \<Rightarrow>
          (let start_time = t - minutes time_window;
               end_time = t + minutes time_window
           in if start_time < Timestamp_min \<or> Timestamp_max < start_time
                 \<or> end_time < Timestamp_min \<or> Timestamp_max < end_time
              then Inl OverflowError
              else
                bind_err (http (Iv_query site_no param_cd start_time end_time)) (\<lambda>response.
                if status_code response = 200 then
                  bind_err (response_json response) (\<lambda>data.
                  bind_err (py_in ''value'' data) (\<lambda>has_value.
                  if has_value then
                    bind_err (py_getitem data ''value'') (\<lambda>v.
                    bind_err (py_in ''timeSeries'' v) (\<lambda>has_ts.
                    if has_ts then
                      bind_err (py_getitem v ''timeSeries'') (\<lambda>tss.
                      bind_err (py_iter tss) (\<lambda>tsl.
                      bind_err (map_err ts_readings tsl) (\<lambda>rss. Inr (concat rss))))
                    else Inr []))
                  else Inr []))
                else Inr [])))"

section \<open>Temporal matcher: \<^verbatim>\<open>match_granules\<close>\<close>

text \<open>
  A row of \<^verbatim>\<open>df_granules\<close> is a record of the granule finder. A row of the result is the
  dict \<^verbatim>\<open>closest_result\<close>, its keys prefixed with \<open>m_\<close>. The function is modelled as in
  \<^verbatim>\<open>retrieval_utils.py\<close>; the variant in \<^verbatim>\<open>modules/retrieval_utils_appeearsTest.py\<close> has the
  same loops and copies other columns of the row.
\<close>

record granule =
  site_no :: string
  station_nm :: string
  site_lat :: string
  site_lon :: string
  granule_urls :: "json list"
  datetime :: json

record matched =
  m_site_no :: string
  m_station_nm :: string
  m_site_lat :: string
  m_site_lon :: string
  m_granule_time :: datetime
  m_granule_urls :: "json list"
  m_result :: json
  m_result_unit :: json
  m_result_time :: json

definition closest_result_of :: "granule \<Rightarrow> datetime \<Rightarrow> reading \<Rightarrow> matched" where
  "closest_result_of row granule_time r =
     \<lparr>m_site_no = site_no row, m_station_nm = station_nm row,
      m_site_lat = site_lat row, m_site_lon = site_lon row,
      m_granule_time = granule_time, m_granule_urls = granule_urls row,
      m_result = result r, m_result_unit = result_unit r, m_result_time = result_time r\<rparr>"

text \<open>
  The running minimum is the pair (\<^verbatim>\<open>closest_time\<close>, \<^verbatim>\<open>closest_result\<close>). A missing time
  difference compares false with everything.
\<close>

type_synonym best = "int \<times> matched option"

definition closer :: "int option \<Rightarrow> int \<Rightarrow> bool" where
  "closer tb closest_time = (case tb of None \<Rightarrow> False | Some d \<Rightarrow> d < closest_time)"

text \<open>The loop \<^verbatim>\<open>for result in result_data\<close>.\<close>

fun scan_results ::
  "to_datetime \<Rightarrow> granule \<Rightarrow> datetime \<Rightarrow> best \<Rightarrow> reading list \<Rightarrow> error + best" where
  "scan_results to_dt row granule_time b [] = Inr b"
| "scan_results to_dt row granule_time b (r # rs) =
     bind_err (to_dt (result_time r)) (\<lambda>rt.
     bind_err (time_between rt granule_time) (\<lambda>tb.
       scan_results to_dt row granule_time
         (if closer tb (fst b)
          then (the tb, Some (closest_result_of row granule_time r))
          else b) rs))"

text \<open>
  The loop \<^verbatim>\<open>for param_cd in param_codes\<close>. The test of \<^verbatim>\<open>closest_result\<close> and the append
  to \<^verbatim>\<open>results\<close> are in the body of this loop, at the indentation of the request. The
  progress bar has no effect on the result and is left out.
\<close>

fun scan_params ::
  "http \<Rightarrow> to_datetime \<Rightarrow> granule \<Rightarrow> datetime \<Rightarrow> best \<Rightarrow> string list \<Rightarrow> matched list
     \<Rightarrow> error + best \<times> matched list" where
  "scan_params http to_dt row granule_time b [] results = Inr (b, results)"
| "scan_params http to_dt row granule_time b (param_cd # pcs) results =
     bind_err (get_granule_results http (site_no row) param_cd granule_time 30) (\<lambda>result_data.
     bind_err (if result_data \<noteq> []
               then scan_results to_dt row granule_time b result_data
               else Inr b) (\<lambda>b'.
       scan_params http to_dt row granule_time b' pcs
         (case snd b' of None \<Rightarrow> results | Some m \<Rightarrow> results @ [m])))"

text \<open>The loop \<^verbatim>\<open>for index, row in df_granules.iterrows()\<close>.\<close>

fun match_rows ::
  "http \<Rightarrow> to_datetime \<Rightarrow> string list \<Rightarrow> granule list \<Rightarrow> matched list
     \<Rightarrow> error + matched list" where
  "match_rows http to_dt param_codes [] results = Inr results"
| "match_rows http to_dt param_codes (row # rows) results =
     bind_err (to_dt (datetime row)) (\<lambda>granule_time.
     bind_err (scan_params http to_dt row granule_time (Timedelta_max, None) param_codes results)
       (\<lambda>(b, results'). match_rows http to_dt param_codes rows results'))"

definition match_granules ::
  "http \<Rightarrow> to_datetime \<Rightarrow> granule list \<Rightarrow> string list \<Rightarrow> error + matched list" where
  "match_granules http to_dt df_granules param_codes =
     match_rows http to_dt param_codes df_granules []"

section \<open>Granule finder: \<^verbatim>\<open>get_site_granules\<close>\<close>

definition doi :: string where
  "doi = ''10.5067/EMIT/EMITL2ARFL.001''"

definition page_size :: nat where
  "page_size = 2000"

text \<open>\<^verbatim>\<open>g.get(k, default)\<close>: a method of dicts only.\<close>

fun py_get :: "json \<Rightarrow> string \<Rightarrow> json \<Rightarrow> error + json" where
  "py_get (JObj kvs) k d = (case map_of kvs k of None \<Rightarrow> Inr d | Some v \<Rightarrow> Inr v)"
| "py_get _ k d = Inl AttributeError"

text \<open>
  One link \<open>x\<close> of the comprehension
  \<^verbatim>\<open>[x['href'] for x in g['links'] if 'https' in x['href'] and '.nc' in x['href'] and '.dmrpp' not in x['href']]\<close>:
  \<open>Some\<close> of the URL when the link is kept. The three tests short-circuit from left to
  right.
\<close>

definition link_url :: "json \<Rightarrow> error + json option" where
  "link_url x =
     bind_err (py_getitem x ''href'') (\<lambda>href.
     bind_err (py_in ''https'' href) (\<lambda>secure.
     if secure then
       bind_err (py_in ''.nc'' href) (\<lambda>nc.
       if nc then
         bind_err (py_in ''.dmrpp'' href) (\<lambda>dmrpp.
         Inr (if dmrpp then None else Some href))
       else Inr None)
     else Inr None))"

definition granule_urls_of :: "json \<Rightarrow> error + json list" where
  "granule_urls_of g =
     bind_err (py_getitem g ''links'') (\<lambda>links.
     bind_err (py_iter links) (\<lambda>xs.
     bind_err (map_err link_url xs) (\<lambda>kept. Inr (List.map_filter id kept))))"

text \<open>The body of \<^verbatim>\<open>for g in granules\<close>: the record appended to \<^verbatim>\<open>granule_arr\<close>.\<close>

definition granule_of :: "string \<Rightarrow> string \<Rightarrow> string \<Rightarrow> string \<Rightarrow> json \<Rightarrow> error + granule" where
  "granule_of sno snm slat slon g =
     bind_err (granule_urls_of g) (\<lambda>urls.
     bind_err (py_get g ''time_start'' (JStr ''N/A'')) (\<lambda>granule_datetime.
       Inr \<lparr>site_no = sno, station_nm = snm, site_lat = slat, site_lon = slon,
            granule_urls = urls, datetime = granule_datetime\<rparr>))"

text \<open>\<^verbatim>\<open>response.json()['feed']['entry']\<close> of the answer to a request.\<close>

definition feed_entry :: "http \<Rightarrow> request \<Rightarrow> error + json" where
  "feed_entry http req =
     bind_err (http req) (\<lambda>response.
     bind_err (response_json response) (\<lambda>j.
     bind_err (py_getitem j ''feed'') (\<lambda>feed. py_getitem feed ''entry'')))"

definition granule_request :: "json \<Rightarrow> string \<Rightarrow> string \<Rightarrow> string \<Rightarrow> nat \<Rightarrow> request" where
  "granule_request concept_id temporal_str slat slon page_num =
     Granule_search concept_id page_size page_num temporal_str (slon @ '','' @ slat)"

text \<open>
  The loop \<^verbatim>\<open>while True\<close>. The state is the page number, \<^verbatim>\<open>granule_arr\<close> and the list of
  requests sent so far; the result is the requests sent, the lines printed and the
  exception or the returned list. \<open>None\<close> is a loop that never ends.
\<close>

type_synonym outcome = "request list \<times> string list \<times> (error + granule list)"

partial_function (option) granule_pages ::
  "http \<Rightarrow> string \<Rightarrow> string \<Rightarrow> string \<Rightarrow> string \<Rightarrow> string \<Rightarrow> json
     \<Rightarrow> nat \<Rightarrow> granule list \<Rightarrow> request list \<Rightarrow> outcome option" where
  "granule_pages http sno snm slat slon temporal_str concept_id page_num granule_arr sent =
     (let req = granule_request concept_id temporal_str slat slon page_num;
          sent' = sent @ [req]
      in case feed_entry http req of
           Inl e \<Rightarrow> Some (sent', [], Inl e)
         | Inr granules \<Rightarrow>
             if py_truthy granules then
               (case bind_err (py_iter granules) (map_err (granule_of sno snm slat slon)) of
                  Inl e \<Rightarrow> Some (sent', [], Inl e)
                | Inr recs \<Rightarrow>
                    granule_pages http sno snm slat slon temporal_str concept_id
                      (page_num + 1) (granule_arr @ recs) sent')
             else
               Some (sent',
                     if granule_arr = [] then [''No granules found for site '' @ sno] else [],
                     Inr granule_arr))"

declare granule_pages.simps [code]

definition concept_id_of :: "http \<Rightarrow> error + json" where
  "concept_id_of http =
     bind_err (feed_entry http (Collection_lookup doi)) (\<lambda>entries.
     bind_err (py_getitem0 entries) (\<lambda>first. py_getitem first ''id''))"

definition get_site_granules ::
  "http \<Rightarrow> string \<Rightarrow> string \<Rightarrow> string \<Rightarrow> string \<Rightarrow> string \<Rightarrow> outcome option" where
  "get_site_granules http sno snm slat slon temporal_str =
     (case concept_id_of http of
        Inl e \<Rightarrow> Some ([Collection_lookup doi], [], Inl e)
      | Inr concept_id \<Rightarrow>
          granule_pages http sno snm slat slon temporal_str concept_id 1 []
            [Collection_lookup doi])"

section \<open>Site locator: \<^verbatim>\<open>get_param_sites\<close>\<close>







definition tab :: char where
  "tab = CHR 0x09"















section \<open>Notions used to state the properties\<close>

text \<open>
  The rows \<^verbatim>\<open>match_granules\<close> appends while it processes one row of \<^verbatim>\<open>df_granules\<close>: the
  body of its outer loop, started with no rows.
\<close>

definition granule_rows ::
  "http \<Rightarrow> to_datetime \<Rightarrow> string list \<Rightarrow> granule \<Rightarrow> error + matched list" where
  "granule_rows http to_dt param_codes row =
     bind_err (to_dt (datetime row)) (\<lambda>granule_time.
     bind_err (scan_params http to_dt row granule_time (Timedelta_max, None) param_codes [])
       (\<lambda>(b, rs). Inr rs))"

text \<open>
  The time distance of a reading to the granule, when its timestamp parses to a time and
  the difference is in range.
\<close>

definition distance :: "to_datetime \<Rightarrow> datetime \<Rightarrow> reading \<Rightarrow> int option" where
  "distance to_dt granule_time r =
     (case to_dt (result_time r) of
        Inl e \<Rightarrow> None
      | Inr rt \<Rightarrow> (case time_between rt granule_time of Inl e \<Rightarrow> None | Inr d \<Rightarrow> d))"


text \<open>
  The layout of the time-series document, as the code's key paths read it: a list of time
  series, each with a unit code and a list of groups of (value, time) pairs.
\<close>

type_synonym series = "json \<times> (json \<times> json) list list"

definition iv_value :: "json \<times> json \<Rightarrow> json" where
  "iv_value p = JObj [(''value'', fst p), (''dateTime'', snd p)]"

definition iv_group :: "(json \<times> json) list \<Rightarrow> json" where
  "iv_group g = JObj [(''value'', JArr (map iv_value g))]"

definition iv_series :: "series \<Rightarrow> json" where
  "iv_series s =
     JObj [(''variable'', JObj [(''unit'', JObj [(''unitCode'', fst s)])]),
           (''values'', JArr (map iv_group (snd s)))]"

definition iv_document :: "series list \<Rightarrow> json" where
  "iv_document tss = JObj [(''value'', JObj [(''timeSeries'', JArr (map iv_series tss))])]"

definition ok_json :: "json \<Rightarrow> response" where
  "ok_json j = \<lparr>status_code = 200, body_text = [], json_body = Some j\<rparr>"

definition reading_in :: "json \<Rightarrow> json \<times> json \<Rightarrow> reading" where
  "reading_in unit p = \<lparr>result = fst p, result_unit = unit, result_time = snd p\<rparr>"




text \<open>
  A URL that uses secure transport starts with the scheme; a URL that ends in the data-file
  extension has it as a suffix.
\<close>

definition ends_with :: "string \<Rightarrow> string \<Rightarrow> bool" where
  "ends_with suffix s = starts_with (rev suffix) (rev s)"

definition secure_data_url :: "json \<Rightarrow> bool" where
  "secure_data_url u =
     (case u of
        JStr s \<Rightarrow> starts_with ''https://'' s \<and> ends_with ''.nc'' s \<and> \<not> is_substr ''.dmrpp'' s
      | _ \<Rightarrow> False)"

text \<open>What the comprehension of \<^verbatim>\<open>get_site_granules\<close> tests on a URL.\<close>

definition kept_url :: "json \<Rightarrow> bool" where
  "kept_url u =
     (py_in ''https'' u = Inr True \<and> py_in ''.nc'' u = Inr True \<and> py_in ''.dmrpp'' u = Inr False)"

text \<open>The records the granule finder builds from page \<open>k\<close> of the search.\<close>

definition page_granules ::
  "http \<Rightarrow> string \<Rightarrow> string \<Rightarrow> string \<Rightarrow> string \<Rightarrow> string \<Rightarrow> json \<Rightarrow> nat \<Rightarrow> error + granule list" where
  "page_granules http sno snm slat slon temporal_str concept_id k =
     bind_err (feed_entry http (granule_request concept_id temporal_str slat slon k)) (\<lambda>granules.
     bind_err (py_iter granules) (map_err (granule_of sno snm slat slon)))"

definition is_lookup :: "request \<Rightarrow> bool" where
  "is_lookup req = (case req of Collection_lookup d \<Rightarrow> True | _ \<Rightarrow> False)"



section \<open>A sample of the services, for the concrete runs\<close>

text \<open>
  A parser that knows the timestamps of the sample and raises on every other string, as
  on the sentinel \<^verbatim>\<open>N/A\<close>; a missing value parses to \<open>NaT\<close>.
\<close>

definition example_to_datetime :: to_datetime where
  "example_to_datetime j =
     (case j of
        JStr s \<Rightarrow>
          (case map_of [(''2023-08-01T11:40:00Z'', 1690890000000000000),
                        (''2023-08-01T11:55:00Z'', 1690890900000000000),
                        (''2023-08-01T12:00:00Z'', 1690891200000000000),
                        (''2023-08-01T12:05:00Z'', 1690891500000000000)] s of
             None \<Rightarrow> Inl ValueError
           | Some t \<Rightarrow> Inr (Timestamp t))
      | JNull \<Rightarrow> Inr NaT
      | _ \<Rightarrow> Inl TypeError)"

definition example_time :: int where
  "example_time = 1690891200000000000"

definition example_granule :: granule where
  "example_granule =
     \<lparr>site_no = ''07374000'', station_nm = ''Mississippi River at Baton Rouge, LA'',
      site_lat = ''30.44'', site_lon = ''-91.19'',
      granule_urls = [JStr ''https://data.example.org/EMIT_L2A_RFL_001.nc''],
      datetime = JStr ''2023-08-01T12:00:00Z''\<rparr>"

definition stage_1140 :: "json \<times> json" where
  "stage_1140 = (JStr ''2.10'', JStr ''2023-08-01T11:40:00Z'')"

definition flow_1205 :: "json \<times> json" where
  "flow_1205 = (JStr ''350'', JStr ''2023-08-01T12:05:00Z'')"

definition temp_1155 :: "json \<times> json" where
  "temp_1155 = (JStr ''18.2'', JStr ''2023-08-01T11:55:00Z'')"

definition temp_1205 :: "json \<times> json" where
  "temp_1205 = (JStr ''18.4'', JStr ''2023-08-01T12:05:00Z'')"

definition example_series :: "string \<Rightarrow> series list" where
  "example_series param_cd =
     (if param_cd = ''00065'' then [(JStr ''ft'', [[stage_1140]])]
      else if param_cd = ''00060'' then [(JStr ''ft3/s'', [[flow_1205]])]
      else if param_cd = ''00010'' then [(JStr ''deg C'', [[temp_1155, temp_1205]])]
      else if param_cd = ''00011'' then [(JStr ''deg C'', [[temp_1155], [temp_1205]])]
      else [])"

fun tab_joined :: "string list \<Rightarrow> string" where
  "tab_joined [] = []"
| "tab_joined [c] = c"
| "tab_joined (c # d # cs) = c @ [tab] @ tab_joined (d # cs)"

definition example_rdb :: string where
  "example_rdb =
     concat (map (\<lambda>l. l @ [CHR 0x0A])
       [''# US Geological Survey'',
        tab_joined [''agency_cd'', ''site_no'', ''station_nm'', ''site_tp_cd'',
                    ''dec_lat_va'', ''dec_long_va''],
        tab_joined [''5s'', ''15s'', ''50s'', ''7s'', ''16s'', ''16s''],
        tab_joined [''USGS'', ''07374000'', ''Mississippi River at Baton Rouge, LA'', ''ST'',
                    ''30.44'', ''-91.19''],
        tab_joined [''USGS'', ''07381490'', ''Atchafalaya River at Simmesport, LA'', ''ST'',
                    ''30.98'', ''-91.79''],
        tab_joined [''USGS'', ''07386980'', ''Vermilion River at Perry, LA'', ''ST'',
                    ''29.95'', ''-92.15'']])"

definition example_entries :: "json list" where
  "example_entries =
     [JObj [(''time_start'', JStr ''2023-08-01T12:00:00Z''),
            (''links'', JArr
               [JObj [(''href'', JStr ''https://data.example.org/EMIT_L2A_RFL_001.nc'')],
                JObj [(''href'', JStr ''s3://bucket/EMIT_L2A_RFL_001.nc'')],
                JObj [(''href'', JStr ''https://data.example.org/EMIT_L2A_RFL_001.nc.dmrpp'')],
                JObj [(''href'', JStr ''http://data.example.org/https/EMIT_L2A_RFL_001.nc.html'')]])],
      JObj [(''links'', JArr [])]]"

definition feed_of :: "json list \<Rightarrow> response" where
  "feed_of entries = ok_json (JObj [(''feed'', JObj [(''entry'', JArr entries)])])"

definition example_http :: http where
  "example_http req =
     (case req of
        Site_query state_code param_codes_str dates \<Rightarrow>
          if state_code = ''LA''
          then Inr \<lparr>status_code = 200, body_text = example_rdb, json_body = None\<rparr>
          else Inr \<lparr>status_code = 503, body_text = [], json_body = None\<rparr>
      | Collection_lookup d \<Rightarrow> Inr (feed_of [JObj [(''id'', JStr ''C2408750690-LPCLOUD'')]])
      | Granule_search concept_id psize page_num temporal_str point \<Rightarrow>
          Inr (feed_of (if page_num = 1 then example_entries else []))
      | Iv_query sno param_cd start_time end_time \<Rightarrow>
          Inr (ok_json (iv_document (example_series param_cd))))"

text \<open>The same services when the product of the lookup does not exist.\<close>

definition no_product_http :: http where
  "no_product_http req =
     (case req of Collection_lookup d \<Rightarrow> Inr (feed_of []) | _ \<Rightarrow> example_http req)"

section \<open>Properties of the temporal matcher\<close>

lemma bind_err_simps [simp]:
  "bind_err (Inl e) f = Inl e"
  "bind_err (Inr v) f = f v"
  by (simp_all add: bind_err_def)

lemma bind_err_Inr_iff:
  "bind_err m f = Inr y \<longleftrightarrow> (\<exists>v. m = Inr v \<and> f v = Inr y)"
  by (cases m) simp_all

lemma scan_params_results:
  "scan_params http to_dt row gt b pcs results =
     bind_err (scan_params http to_dt row gt b pcs []) (\<lambda>(b', rs). Inr (b', results @ rs))"
proof (induction pcs arbitrary: b results)
  case Nil
  show ?case by simp
next
  case (Cons pc pcs)
  show ?case
    apply (simp only: scan_params.simps)
    apply (cases "get_granule_results http (site_no row) pc gt 30")
     apply simp
    subgoal for rd
      apply (cases "if rd \<noteq> [] then scan_results to_dt row gt b rd else Inr b")
       apply simp
      subgoal for b'
        apply (simp only: bind_err_simps)
        apply (subst Cons.IH)
        apply (subst (2) Cons.IH)
        apply (cases "scan_params http to_dt row gt b' pcs []")
         apply (auto split: option.splits)
        done
      done
    done
qed


lemma match_rows_results:
  "match_rows http to_dt pcs rows results =
     bind_err (match_rows http to_dt pcs rows []) (\<lambda>rs. Inr (results @ rs))"
proof (induction rows arbitrary: results)
  case Nil
  show ?case by simp
next
  case (Cons row rows)
  show ?case
  proof (cases "to_dt (datetime row)")
    case (Inl e)
    then show ?thesis by simp
  next
    case (Inr gt)
    show ?thesis
    proof (cases "scan_params http to_dt row gt (Timedelta_max, None) pcs []")
      case (Inl e)
      then show ?thesis
        using Inr by (simp add: scan_params_results [of _ _ _ _ _ _ results])
    next
      case scan: (Inr p)
      obtain b rs where p: "p = (b, rs)" by (cases p)
      have "match_rows http to_dt pcs (row # rows) results
              = match_rows http to_dt pcs rows (results @ rs)"
        using Inr scan p by (simp add: scan_params_results [of _ _ _ _ _ _ results])
      moreover have "match_rows http to_dt pcs (row # rows) []
              = match_rows http to_dt pcs rows rs"
        using Inr scan p by simp
      ultimately show ?thesis
        using Cons.IH [of "results @ rs"] Cons.IH [of rs]
        by (cases "match_rows http to_dt pcs rows []") simp_all
    qed
  qed
qed

lemma match_granules_Cons:
  "match_granules http to_dt (row # rows) pcs =
     bind_err (granule_rows http to_dt pcs row) (\<lambda>rs.
     bind_err (match_granules http to_dt rows pcs) (\<lambda>rest. Inr (rs @ rest)))"
proof (cases "to_dt (datetime row)")
  case (Inl e)
  then show ?thesis by (simp add: match_granules_def granule_rows_def)
next
  case (Inr gt)
  show ?thesis
  proof (cases "scan_params http to_dt row gt (Timedelta_max, None) pcs []")
    case (Inl e)
    then show ?thesis using Inr by (simp add: match_granules_def granule_rows_def)
  next
    case scan: (Inr p)
    obtain b rs where p: "p = (b, rs)" by (cases p)
    show ?thesis
      using Inr scan p match_rows_results [of http to_dt pcs rows rs]
      by (simp add: match_granules_def granule_rows_def)
  qed
qed

lemma match_granules_Nil: "match_granules http to_dt [] pcs = Inr []"
  by (simp add: match_granules_def)

lemma match_granules_skip:
  assumes "granule_rows http to_dt pcs row = Inr []"
  shows "match_granules http to_dt (pre @ row # post) pcs
           = match_granules http to_dt (pre @ post) pcs"
proof (induction pre)
  case Nil
  show ?case
    using assms
    by (cases "match_granules http to_dt post pcs") (simp_all add: match_granules_Cons)
next
  case (Cons a pre)
  then show ?case by (simp add: match_granules_Cons)
qed

lemma scan_params_no_candidates:
  assumes "\<forall>pc\<in>set pcs. get_granule_results http (site_no row) pc gt 30 = Inr []"
  shows "scan_params http to_dt row gt (c, None) pcs results = Inr ((c, None), results)"
  using assms by (induction pcs) simp_all

lemma scan_results_step:
  assumes "to_dt (result_time r) = Inr rt" "time_between rt gt = Inr tb"
  shows "scan_results to_dt row gt b (r # rs) =
           scan_results to_dt row gt
             (if closer tb (fst b) then (the tb, Some (closest_result_of row gt r)) else b) rs"
  using assms by simp





text \<open>
  C6. A granule for which every parameter code returns no candidate reading adds no row:
  the rows appended for it are none, and the result of the whole run is the result of the
  run without that granule, so the rows of the granules before and after it are kept.
\<close>

theorem no_candidates_no_row:
  assumes "to_dt (datetime row) = Inr gt"
    and "\<forall>pc\<in>set pcs. get_granule_results http (site_no row) pc gt 30 = Inr []"
  shows "granule_rows http to_dt pcs row = Inr []
       \<and> match_granules http to_dt (pre @ row # post) pcs
           = match_granules http to_dt (pre @ post) pcs"
proof -
  have "granule_rows http to_dt pcs row = Inr []"
    using assms by (simp add: granule_rows_def scan_params_no_candidates)
  then show ?thesis by (simp add: match_granules_skip)
qed

theorem no_candidates_no_row_witness:
  "example_to_datetime (datetime example_granule) = Inr (Timestamp example_time)
   \<and> get_granule_results example_http (site_no example_granule) ''00095''
         (Timestamp example_time) 30 = Inr []
   \<and> get_granule_results example_http (site_no example_granule) ''72019''
         (Timestamp example_time) 30 = Inr []
   \<and> granule_rows example_http example_to_datetime [''00095'', ''72019''] example_granule = Inr []
   \<and> match_granules example_http example_to_datetime
         ([example_granule\<lparr>datetime := JStr ''2023-08-01T11:55:00Z''\<rparr>] @ example_granule # [])
         [''00095'', ''72019'']
       = match_granules example_http example_to_datetime
         ([example_granule\<lparr>datetime := JStr ''2023-08-01T11:55:00Z''\<rparr>] @ [])
         [''00095'', ''72019'']"
proof -
  have h1: "example_to_datetime (datetime example_granule) = Inr (Timestamp example_time)"
    by code_simp
  have a: "get_granule_results example_http (site_no example_granule) ''00095''
         (Timestamp example_time) 30 = Inr []"
    by code_simp
  have b: "get_granule_results example_http (site_no example_granule) ''72019''
         (Timestamp example_time) 30 = Inr []"
    by code_simp
  have h2: "\<forall>pc\<in>set [''00095'', ''72019'']. get_granule_results example_http
         (site_no example_granule) pc (Timestamp example_time) 30 = Inr []"
    using a b by simp
  from no_candidates_no_row
         [where to_dt = example_to_datetime and row = example_granule
            and gt = "Timestamp example_time" and pcs = "[''00095'', ''72019'']"
            and http = example_http and post = "[]"
            and pre = "[example_granule\<lparr>datetime := JStr ''2023-08-01T11:55:00Z''\<rparr>]",
          OF h1 h2]
       h1 a b
  show ?thesis by blast
qed



lemma match_granules_abort:
  assumes "granule_rows http to_dt pcs row = Inl e"
    and "match_granules http to_dt pre pcs = Inr done"
  shows "match_granules http to_dt (pre @ row # post) pcs = Inl e"
  using assms(2)
proof (induction pre arbitrary: "done")
  case Nil
  show ?case using assms(1) by (simp add: match_granules_Cons)
next
  case (Cons a pre)
  from Cons.prems obtain rs rest where
    rs: "granule_rows http to_dt pcs a = Inr rs"
    and rest: "match_granules http to_dt pre pcs = Inr rest"
    by (auto simp: match_granules_Cons bind_err_Inr_iff)
  from Cons.IH [OF rest] rs show ?case
    by (simp add: match_granules_Cons)
qed

text \<open>
  C10. A granule entry without the start-time field gives a record whose \<^verbatim>\<open>datetime\<close> is
  the sentinel \<^verbatim>\<open>N/A\<close>. The matcher parses the \<^verbatim>\<open>datetime\<close> of every row without a
  guard: when the parser raises on the sentinel, \<^verbatim>\<open>match_granules\<close> raises that exception
  at such a row, after rows that matched, instead of skipping the row, and returns no row
  at all. The same holds when the parser gives the missing time for the sentinel: the
  first request for the row then raises while the window is formatted.
\<close>

theorem sentinel_aborts_matching:
  "(map_of kvs ''time_start'' = None \<and> granule_urls_of (JObj kvs) = Inr urls \<longrightarrow>
      granule_of sno snm slat slon (JObj kvs)
        = Inr \<lparr>site_no = sno, station_nm = snm, site_lat = slat, site_lon = slon,
               granule_urls = urls, datetime = JStr ''N/A''\<rparr>)
   \<and> (datetime row = JStr ''N/A''
        \<and> (to_dt (JStr ''N/A'') = Inl e
             \<or> to_dt (JStr ''N/A'') = Inr NaT \<and> pcs \<noteq> [] \<and> e = ValueError)
        \<and> match_granules http to_dt pre pcs = Inr done \<longrightarrow>
      match_granules http to_dt (pre @ row # post) pcs = Inl e)"
proof (intro conjI impI)
  assume "map_of kvs ''time_start'' = None \<and> granule_urls_of (JObj kvs) = Inr urls"
  then show "granule_of sno snm slat slon (JObj kvs)
        = Inr \<lparr>site_no = sno, station_nm = snm, site_lat = slat, site_lon = slon,
               granule_urls = urls, datetime = JStr ''N/A''\<rparr>"
    by (simp add: granule_of_def)
next
  assume a: "datetime row = JStr ''N/A''
        \<and> (to_dt (JStr ''N/A'') = Inl e
             \<or> to_dt (JStr ''N/A'') = Inr NaT \<and> pcs \<noteq> [] \<and> e = ValueError)
        \<and> match_granules http to_dt pre pcs = Inr done"
  then consider "to_dt (JStr ''N/A'') = Inl e"
    | "to_dt (JStr ''N/A'') = Inr NaT" "pcs \<noteq> []" "e = ValueError"
    by blast
  then have "granule_rows http to_dt pcs row = Inl e"
  proof cases
    case 1
    with a show ?thesis by (simp add: granule_rows_def)
  next
    case 2
    then obtain pc rest where "pcs = pc # rest" by (cases pcs) auto
    with a 2 show ?thesis
      by (simp add: granule_rows_def get_granule_results_def)
  qed
  with a show "match_granules http to_dt (pre @ row # post) pcs = Inl e"
    using match_granules_abort by blast
qed

theorem sentinel_aborts_matching_witness:
  "map_of [(''links'', JArr [])] ''time_start'' = None
   \<and> granule_urls_of (JObj [(''links'', JArr [])]) = Inr []
   \<and> granule_of ''07374000'' ''Mississippi River at Baton Rouge, LA'' ''30.44'' ''-91.19''
        (JObj [(''links'', JArr [])])
       = Inr (example_granule\<lparr>granule_urls := [], datetime := JStr ''N/A''\<rparr>)
   \<and> datetime (example_granule\<lparr>granule_urls := [], datetime := JStr ''N/A''\<rparr>) = JStr ''N/A''
   \<and> example_to_datetime (JStr ''N/A'') = Inl ValueError
   \<and> match_granules example_http example_to_datetime [example_granule] [''00060'']
       = Inr [closest_result_of example_granule (Timestamp example_time)
                (reading_in (JStr ''ft3/s'') flow_1205)]
   \<and> match_granules example_http example_to_datetime
        ([example_granule] @ example_granule\<lparr>granule_urls := [], datetime := JStr ''N/A''\<rparr>
           # [example_granule]) [''00060'']
       = Inl ValueError"
proof -
  have h1: "map_of [(''links'', JArr [])] ''time_start'' = None" by simp
  have h2: "granule_urls_of (JObj [(''links'', JArr [])]) = Inr []" by code_simp
  have h3: "datetime (example_granule\<lparr>granule_urls := [], datetime := JStr ''N/A''\<rparr>)
              = JStr ''N/A''" by simp
  have h4: "example_to_datetime (JStr ''N/A'') = Inl ValueError" by code_simp
  have h5: "match_granules example_http example_to_datetime [example_granule] [''00060'']
       = Inr [closest_result_of example_granule (Timestamp example_time)
                (reading_in (JStr ''ft3/s'') flow_1205)]" by code_simp
  have g: "\<lparr>site_no = ''07374000'', station_nm = ''Mississippi River at Baton Rouge, LA'',
            site_lat = ''30.44'', site_lon = ''-91.19'', granule_urls = [],
            datetime = JStr ''N/A''\<rparr>
           = example_granule\<lparr>granule_urls := [], datetime := JStr ''N/A''\<rparr>"
    by (simp add: example_granule_def)
  note t = sentinel_aborts_matching
    [where kvs = "[(''links'', JArr [])]" and urls = "[]" and sno = "''07374000''"
       and snm = "''Mississippi River at Baton Rouge, LA''" and slat = "''30.44''"
       and slon = "''-91.19''"
       and row = "example_granule\<lparr>granule_urls := [], datetime := JStr ''N/A''\<rparr>"
       and to_dt = example_to_datetime and e = ValueError and http = example_http
       and pre = "[example_granule]" and pcs = "[''00060'']" and post = "[example_granule]"
       and ?done = "[closest_result_of example_granule (Timestamp example_time)
                (reading_in (JStr ''ft3/s'') flow_1205)]"]
  from t h1 h2 h3 h4 h5 g show ?thesis by simp
qed

text \<open>
  C1. One granule and two parameter codes, each with one reading in the window:
  \<^verbatim>\<open>match_granules\<close> returns two rows for the granule, one after each parameter code, both
  holding the reading of the first code, which is the closest.
\<close>

theorem one_row_per_parameter_code:
  "match_granules example_http example_to_datetime [example_granule] [''00060'', ''00065'']
     = Inr [closest_result_of example_granule (Timestamp example_time)
              (reading_in (JStr ''ft3/s'') flow_1205),
            closest_result_of example_granule (Timestamp example_time)
              (reading_in (JStr ''ft3/s'') flow_1205)]"
  by code_simp

text \<open>
  C2. With the codes in the other order, the first row returned for the granule holds the
  reading at 20 minutes, found under the first code, although the second code returns a
  reading at 5 minutes in the same window.
\<close>

theorem early_row_not_closest:
  "match_granules example_http example_to_datetime [example_granule] [''00065'', ''00060'']
     = Inr [closest_result_of example_granule (Timestamp example_time)
              (reading_in (JStr ''ft'') stage_1140),
            closest_result_of example_granule (Timestamp example_time)
              (reading_in (JStr ''ft3/s'') flow_1205)]
   \<and> distance example_to_datetime (Timestamp example_time) (reading_in (JStr ''ft'') stage_1140)
       = Some (minutes 20)
   \<and> get_granule_results example_http ''07374000'' ''00060'' (Timestamp example_time) 30
       = Inr [reading_in (JStr ''ft3/s'') flow_1205]
   \<and> distance example_to_datetime (Timestamp example_time)
        (reading_in (JStr ''ft3/s'') flow_1205) = Some (minutes 5)"
  by code_simp








section \<open>Properties of the granule finder\<close>

lemma map_err_Inr_set:
  assumes "map_err f xs = Inr ys" "y \<in> set ys"
  shows "\<exists>x\<in>set xs. f x = Inr y"
  using assms
proof (induction xs arbitrary: ys)
  case Nil
  then show ?case by simp
next
  case (Cons x xs)
  from Cons.prems(1) obtain z zs where z: "f x = Inr z" and zs: "map_err f xs = Inr zs"
    and ys: "ys = z # zs"
    by (auto simp: bind_err_Inr_iff)
  show ?case
  proof (cases "y = z")
    case True
    then show ?thesis using z by simp
  next
    case False
    then have "y \<in> set zs" using Cons.prems(2) ys by simp
    from Cons.IH [OF zs this] show ?thesis by auto
  qed
qed

lemma link_url_kept:
  assumes "link_url x = Inr (Some u)"
  shows "kept_url u"
proof -
  from assms obtain href where h: "py_getitem x ''href'' = Inr href"
    by (auto simp: link_url_def bind_err_Inr_iff)
  from assms h obtain a where a: "py_in ''https'' href = Inr a"
    by (auto simp: link_url_def bind_err_Inr_iff)
  have a': "a" using assms h a by (auto simp: link_url_def split: if_splits)
  from assms h a a' obtain b where b: "py_in ''.nc'' href = Inr b"
    by (auto simp: link_url_def bind_err_Inr_iff)
  have b': "b" using assms h a a' b by (auto simp: link_url_def split: if_splits)
  from assms h a a' b b' obtain c where c: "py_in ''.dmrpp'' href = Inr c"
    by (auto simp: link_url_def bind_err_Inr_iff)
  have "\<not> c \<and> u = href" using assms h a a' b b' c by (auto simp: link_url_def split: if_splits)
  then show ?thesis using a a' b b' c by (simp add: kept_url_def)
qed

lemma granule_urls_of_kept:
  assumes "granule_urls_of g = Inr urls" "u \<in> set urls"
  shows "kept_url u"
proof -
  from assms(1) obtain links xs kept where
    "py_getitem g ''links'' = Inr links" "py_iter links = Inr xs"
    and kept: "map_err link_url xs = Inr kept"
    and urls: "urls = List.map_filter id kept"
    by (auto simp: granule_urls_of_def bind_err_Inr_iff)
  from assms(2) urls have "Some u \<in> set kept"
    by (auto simp: List.map_filter_def)
  from map_err_Inr_set [OF kept this] show ?thesis
    using link_url_kept by blast
qed

lemma granule_of_kept:
  assumes "granule_of sno snm slat slon g = Inr r" "u \<in> set (granule_urls r)"
  shows "kept_url u"
proof -
  from assms(1) obtain urls dt where urls: "granule_urls_of g = Inr urls"
    and r: "r = \<lparr>site_no = sno, station_nm = snm, site_lat = slat, site_lon = slon,
               granule_urls = urls, datetime = dt\<rparr>"
    by (auto simp: granule_of_def bind_err_Inr_iff)
  then show ?thesis using assms(2) granule_urls_of_kept by simp
qed

lemma granule_pages_kept:
  assumes run: "granule_pages http sno snm slat slon temporal cid k arr sent = Some out"
    and arr: "\<forall>g\<in>set arr. \<forall>u\<in>set (granule_urls g). kept_url u"
    and out: "snd (snd out) = Inr gs"
  shows "\<forall>g\<in>set gs. \<forall>u\<in>set (granule_urls g). kept_url u"
proof -
  let ?ok = "\<lambda>xs. \<forall>g\<in>set xs. \<forall>u\<in>set (granule_urls g). kept_url u"
  let ?P = "\<lambda>(http :: http) (sno :: string) (snm :: string) (slat :: string) (slon :: string)
              (temporal :: string) (cid :: json) (k :: nat) arr (sent :: request list)
              (out :: outcome).
              ?ok arr \<longrightarrow> (\<forall>gs. snd (snd out) = Inr gs \<longrightarrow> ?ok gs)"
  have "?P http sno snm slat slon temporal cid k arr sent out"
  proof (rule granule_pages.raw_induct [where P = ?P, OF _ run])
    fix f :: "http \<Rightarrow> string \<Rightarrow> string \<Rightarrow> string \<Rightarrow> string \<Rightarrow> string \<Rightarrow> json \<Rightarrow> nat
                \<Rightarrow> granule list \<Rightarrow> request list \<Rightarrow> outcome option"
    fix http sno snm slat slon temporal cid k arr sent out
    assume IH: "\<And>http sno snm slat slon temporal cid k arr sent out.
                  f http sno snm slat slon temporal cid k arr sent = Some out
                  \<Longrightarrow> ?P http sno snm slat slon temporal cid k arr sent out"
    assume body: "(let req = granule_request cid temporal slat slon k; sent' = sent @ [req]
       in case feed_entry http req of
            Inl e \<Rightarrow> Some (sent', [], Inl e)
          | Inr granules \<Rightarrow>
              if py_truthy granules then
                (case bind_err (py_iter granules) (map_err (granule_of sno snm slat slon)) of
                   Inl e \<Rightarrow> Some (sent', [], Inl e)
                 | Inr recs \<Rightarrow> f http sno snm slat slon temporal cid (k + 1) (arr @ recs) sent')
              else Some (sent',
                   if arr = [] then [''No granules found for site '' @ sno] else [],
                   Inr arr)) = Some out"
    let ?req = "granule_request cid temporal slat slon k"
    show "?P http sno snm slat slon temporal cid k arr sent out"
    proof (cases "feed_entry http ?req")
      case (Inl e)
      with body show ?thesis by (auto simp: Let_def)
    next
      case entry: (Inr granules)
      show ?thesis
      proof (cases "py_truthy granules")
        case False
        with entry body show ?thesis by (auto simp: Let_def)
      next
        case True
        show ?thesis
        proof (cases "bind_err (py_iter granules) (map_err (granule_of sno snm slat slon))")
          case (Inl e)
          with entry True body show ?thesis by (auto simp: Let_def)
        next
          case (Inr recs)
          then obtain xs where recs: "map_err (granule_of sno snm slat slon) xs = Inr recs"
            by (auto simp: bind_err_Inr_iff)
          have new: "?ok recs"
            using map_err_Inr_set [OF recs] granule_of_kept by blast
          have call: "f http sno snm slat slon temporal cid (k + 1) (arr @ recs) (sent @ [?req])
                        = Some out"
            using entry True Inr body by (simp add: Let_def)
          from IH [OF call] new show ?thesis by auto
        qed
      qed
    qed
  qed
  with arr out show ?thesis by blast
qed

lemma granule_pages_sent:
  assumes run: "granule_pages http sno snm slat slon temporal cid k arr sent = Some out"
  shows "filter is_lookup (fst out) = filter is_lookup sent"
proof -
  let ?P = "\<lambda>(http :: http) (sno :: string) (snm :: string) (slat :: string) (slon :: string)
              (temporal :: string) (cid :: json) (k :: nat) (arr :: granule list)
              (sent :: request list) (out :: outcome).
              filter is_lookup (fst out) = filter is_lookup sent"
  show "?P http sno snm slat slon temporal cid k arr sent out"
  proof (rule granule_pages.raw_induct [where P = ?P, OF _ run])
    fix f :: "http \<Rightarrow> string \<Rightarrow> string \<Rightarrow> string \<Rightarrow> string \<Rightarrow> string \<Rightarrow> json \<Rightarrow> nat
                \<Rightarrow> granule list \<Rightarrow> request list \<Rightarrow> outcome option"
    fix http sno snm slat slon temporal cid k arr sent out
    assume IH: "\<And>http sno snm slat slon temporal cid k arr sent out.
                  f http sno snm slat slon temporal cid k arr sent = Some out
                  \<Longrightarrow> ?P http sno snm slat slon temporal cid k arr sent out"
    assume body: "(let req = granule_request cid temporal slat slon k; sent' = sent @ [req]
       in case feed_entry http req of
            Inl e \<Rightarrow> Some (sent', [], Inl e)
          | Inr granules \<Rightarrow>
              if py_truthy granules then
                (case bind_err (py_iter granules) (map_err (granule_of sno snm slat slon)) of
                   Inl e \<Rightarrow> Some (sent', [], Inl e)
                 | Inr recs \<Rightarrow> f http sno snm slat slon temporal cid (k + 1) (arr @ recs) sent')
              else Some (sent',
                   if arr = [] then [''No granules found for site '' @ sno] else [],
                   Inr arr)) = Some out"
    let ?req = "granule_request cid temporal slat slon k"
    have req: "\<not> is_lookup ?req"
      by (simp add: is_lookup_def granule_request_def)
    show "?P http sno snm slat slon temporal cid k arr sent out"
    proof (cases "feed_entry http ?req")
      case (Inl e)
      with body req show ?thesis by (auto simp: Let_def)
    next
      case entry: (Inr granules)
      show ?thesis
      proof (cases "py_truthy granules")
        case False
        with entry body req show ?thesis by (auto simp: Let_def)
      next
        case True
        show ?thesis
        proof (cases "bind_err (py_iter granules) (map_err (granule_of sno snm slat slon))")
          case (Inl e)
          with entry True body req show ?thesis by (auto simp: Let_def)
        next
          case (Inr recs)
          have call: "f http sno snm slat slon temporal cid (k + 1) (arr @ recs) (sent @ [?req])
                        = Some out"
            using entry True Inr body by (simp add: Let_def)
          from IH [OF call] req show ?thesis by simp
        qed
      qed
    qed
  qed
qed


lemma kept_url_string:
  assumes "kept_url (JStr s)"
  shows "is_substr ''https'' s \<and> is_substr ''.nc'' s \<and> \<not> is_substr ''.dmrpp'' s"
  using assms by (simp add: kept_url_def)

text \<open>
  C5, as the code has it. Every URL in the list of a record returned by
  \<^verbatim>\<open>get_site_granules\<close> passes the three tests of the comprehension: it contains
  \<^verbatim>\<open>https\<close>, it contains \<^verbatim>\<open>.nc\<close> and it does not contain \<^verbatim>\<open>.dmrpp\<close>, each anywhere in
  the URL.
\<close>

theorem filtered_urls_pass_substring_tests:
  assumes "get_site_granules http sno snm slat slon temporal = Some (sent, printed, Inr gs)"
    and "g \<in> set gs" and "u \<in> set (granule_urls g)"
  shows "kept_url u
       \<and> (\<forall>s. u = JStr s \<longrightarrow>
            is_substr ''https'' s \<and> is_substr ''.nc'' s \<and> \<not> is_substr ''.dmrpp'' s)"
proof -
  from assms(1) obtain cid where
    run: "granule_pages http sno snm slat slon temporal cid 1 [] [Collection_lookup doi]
            = Some (sent, printed, Inr gs)"
    by (auto simp: get_site_granules_def split: sum.splits)
  have "\<forall>g\<in>set gs. \<forall>u\<in>set (granule_urls g). kept_url u"
    by (rule granule_pages_kept [OF run]) simp_all
  with assms(2,3) have "kept_url u" by blast
  then show ?thesis using kept_url_string by blast
qed

theorem filtered_urls_pass_substring_tests_witness:
  "get_site_granules example_http ''07374000'' ''Mississippi River at Baton Rouge, LA''
      ''30.44'' ''-91.19'' ''2023-08-01T00:00:00Z,2023-08-02T00:00:00Z''
     = Some ([Collection_lookup doi,
              Granule_search (JStr ''C2408750690-LPCLOUD'') 2000 1
                ''2023-08-01T00:00:00Z,2023-08-02T00:00:00Z'' ''-91.19,30.44'',
              Granule_search (JStr ''C2408750690-LPCLOUD'') 2000 2
                ''2023-08-01T00:00:00Z,2023-08-02T00:00:00Z'' ''-91.19,30.44''],
             [],
             Inr [example_granule\<lparr>granule_urls :=
                    [JStr ''https://data.example.org/EMIT_L2A_RFL_001.nc'',
                     JStr ''http://data.example.org/https/EMIT_L2A_RFL_001.nc.html'']\<rparr>,
                  example_granule\<lparr>granule_urls := [], datetime := JStr ''N/A''\<rparr>])
   \<and> kept_url (JStr ''https://data.example.org/EMIT_L2A_RFL_001.nc'')
   \<and> is_substr ''https'' ''https://data.example.org/EMIT_L2A_RFL_001.nc''
   \<and> is_substr ''.nc'' ''https://data.example.org/EMIT_L2A_RFL_001.nc''
   \<and> \<not> is_substr ''.dmrpp'' ''https://data.example.org/EMIT_L2A_RFL_001.nc''"
proof -
  have run: "get_site_granules example_http ''07374000'' ''Mississippi River at Baton Rouge, LA''
      ''30.44'' ''-91.19'' ''2023-08-01T00:00:00Z,2023-08-02T00:00:00Z''
     = Some ([Collection_lookup doi,
              Granule_search (JStr ''C2408750690-LPCLOUD'') 2000 1
                ''2023-08-01T00:00:00Z,2023-08-02T00:00:00Z'' ''-91.19,30.44'',
              Granule_search (JStr ''C2408750690-LPCLOUD'') 2000 2
                ''2023-08-01T00:00:00Z,2023-08-02T00:00:00Z'' ''-91.19,30.44''],
             [],
             Inr [example_granule\<lparr>granule_urls :=
                    [JStr ''https://data.example.org/EMIT_L2A_RFL_001.nc'',
                     JStr ''http://data.example.org/https/EMIT_L2A_RFL_001.nc.html'']\<rparr>,
                  example_granule\<lparr>granule_urls := [], datetime := JStr ''N/A''\<rparr>])"
    by code_simp
  from filtered_urls_pass_substring_tests [OF run,
         of "example_granule\<lparr>granule_urls :=
                    [JStr ''https://data.example.org/EMIT_L2A_RFL_001.nc'',
                     JStr ''http://data.example.org/https/EMIT_L2A_RFL_001.nc.html'']\<rparr>"
            "JStr ''https://data.example.org/EMIT_L2A_RFL_001.nc''"]
       run
  show ?thesis by simp
qed

text \<open>
  A link over plain \<^verbatim>\<open>http\<close> whose path contains \<^verbatim>\<open>https\<close> and \<^verbatim>\<open>.nc\<close> and which ends in
  \<^verbatim>\<open>.html\<close> is kept in the list of the record.
\<close>

theorem insecure_url_kept:
  "get_site_granules example_http ''07374000'' ''Mississippi River at Baton Rouge, LA''
      ''30.44'' ''-91.19'' ''2023-08-01T00:00:00Z,2023-08-02T00:00:00Z''
     = Some ([Collection_lookup doi,
              Granule_search (JStr ''C2408750690-LPCLOUD'') 2000 1
                ''2023-08-01T00:00:00Z,2023-08-02T00:00:00Z'' ''-91.19,30.44'',
              Granule_search (JStr ''C2408750690-LPCLOUD'') 2000 2
                ''2023-08-01T00:00:00Z,2023-08-02T00:00:00Z'' ''-91.19,30.44''],
             [],
             Inr [example_granule\<lparr>granule_urls :=
                    [JStr ''https://data.example.org/EMIT_L2A_RFL_001.nc'',
                     JStr ''http://data.example.org/https/EMIT_L2A_RFL_001.nc.html'']\<rparr>,
                  example_granule\<lparr>granule_urls := [], datetime := JStr ''N/A''\<rparr>])
   \<and> \<not> starts_with ''https://'' ''http://data.example.org/https/EMIT_L2A_RFL_001.nc.html''
   \<and> \<not> ends_with ''.nc'' ''http://data.example.org/https/EMIT_L2A_RFL_001.nc.html''
   \<and> \<not> secure_data_url (JStr ''http://data.example.org/https/EMIT_L2A_RFL_001.nc.html'')"
  by code_simp

text \<open>
  C9. When the entry list of the collection lookup is empty, \<^verbatim>\<open>get_site_granules\<close> ends
  with the uncaught \<^verbatim>\<open>IndexError\<close> of the lookup, having sent no other request. When the
  list has entries, the run is the page loop with the \<^verbatim>\<open>id\<close> of the first entry, whatever
  the other entries are. Every run that ends has sent the lookup exactly once.
\<close>

theorem lookup_once_first_entry_or_index_error:
  "(feed_entry http (Collection_lookup doi) = Inr (JArr []) \<longrightarrow>
      get_site_granules http sno snm slat slon temporal
        = Some ([Collection_lookup doi], [], Inl IndexError))
   \<and> (feed_entry http (Collection_lookup doi) = Inr (JArr (JObj first # others))
        \<and> map_of first ''id'' = Some cid \<longrightarrow>
      get_site_granules http sno snm slat slon temporal
        = granule_pages http sno snm slat slon temporal cid 1 [] [Collection_lookup doi])
   \<and> (get_site_granules http sno snm slat slon temporal = Some (sent, printed, res) \<longrightarrow>
      filter is_lookup sent = [Collection_lookup doi])"
proof (intro conjI impI)
  assume "feed_entry http (Collection_lookup doi) = Inr (JArr [])"
  then show "get_site_granules http sno snm slat slon temporal
        = Some ([Collection_lookup doi], [], Inl IndexError)"
    by (simp add: get_site_granules_def concept_id_of_def)
next
  assume "feed_entry http (Collection_lookup doi) = Inr (JArr (JObj first # others))
        \<and> map_of first ''id'' = Some cid"
  then show "get_site_granules http sno snm slat slon temporal
        = granule_pages http sno snm slat slon temporal cid 1 [] [Collection_lookup doi]"
    by (simp add: get_site_granules_def concept_id_of_def)
next
  assume run: "get_site_granules http sno snm slat slon temporal = Some (sent, printed, res)"
  have lookup: "is_lookup (Collection_lookup doi)" by (simp add: is_lookup_def)
  show "filter is_lookup sent = [Collection_lookup doi]"
  proof (cases "concept_id_of http")
    case (Inl e)
    with run lookup show ?thesis by (auto simp: get_site_granules_def)
  next
    case (Inr c)
    with run have "granule_pages http sno snm slat slon temporal c 1 [] [Collection_lookup doi]
                     = Some (sent, printed, res)"
      by (simp add: get_site_granules_def)
    from granule_pages_sent [OF this] lookup show ?thesis by simp
  qed
qed


theorem lookup_once_first_entry_or_index_error_witness:
  "feed_entry no_product_http (Collection_lookup doi) = Inr (JArr [])
   \<and> get_site_granules no_product_http ''07374000'' ''Mississippi River at Baton Rouge, LA''
        ''30.44'' ''-91.19'' ''2023-08-01T00:00:00Z,2023-08-02T00:00:00Z''
       = Some ([Collection_lookup doi], [], Inl IndexError)
   \<and> feed_entry example_http (Collection_lookup doi)
       = Inr (JArr (JObj [(''id'', JStr ''C2408750690-LPCLOUD'')] # []))
   \<and> map_of [(''id'', JStr ''C2408750690-LPCLOUD'')] ''id'' = Some (JStr ''C2408750690-LPCLOUD'')
   \<and> get_site_granules example_http ''07374000'' ''Mississippi River at Baton Rouge, LA''
        ''30.44'' ''-91.19'' ''2023-08-01T00:00:00Z,2023-08-02T00:00:00Z''
       = granule_pages example_http ''07374000'' ''Mississippi River at Baton Rouge, LA''
           ''30.44'' ''-91.19'' ''2023-08-01T00:00:00Z,2023-08-02T00:00:00Z''
           (JStr ''C2408750690-LPCLOUD'') 1 [] [Collection_lookup doi]
   \<and> filter is_lookup [Collection_lookup doi] = [Collection_lookup doi]"
proof -
  have h1: "feed_entry no_product_http (Collection_lookup doi) = Inr (JArr [])"
    by code_simp
  have h2: "feed_entry example_http (Collection_lookup doi)
       = Inr (JArr (JObj [(''id'', JStr ''C2408750690-LPCLOUD'')] # []))"
    by code_simp
  have h3: "map_of [(''id'', JStr ''C2408750690-LPCLOUD'')] ''id''
              = Some (JStr ''C2408750690-LPCLOUD'')"
    by simp
  note a = lookup_once_first_entry_or_index_error
    [where http = no_product_http and sno = "''07374000''"
       and snm = "''Mississippi River at Baton Rouge, LA''" and slat = "''30.44''"
       and slon = "''-91.19''" and temporal = "''2023-08-01T00:00:00Z,2023-08-02T00:00:00Z''"
       and sent = "[Collection_lookup doi]" and printed = "[]" and res = "Inl IndexError"]
  note b = lookup_once_first_entry_or_index_error
    [where http = example_http and sno = "''07374000''"
       and snm = "''Mississippi River at Baton Rouge, LA''" and slat = "''30.44''"
       and slon = "''-91.19''" and temporal = "''2023-08-01T00:00:00Z,2023-08-02T00:00:00Z''"
       and first = "[(''id'', JStr ''C2408750690-LPCLOUD'')]" and others = "[]"
       and cid = "JStr ''C2408750690-LPCLOUD''"]
  from a h1 have a1: "get_site_granules no_product_http ''07374000''
        ''Mississippi River at Baton Rouge, LA''
        ''30.44'' ''-91.19'' ''2023-08-01T00:00:00Z,2023-08-02T00:00:00Z''
       = Some ([Collection_lookup doi], [], Inl IndexError)" by blast
  with a have a3: "filter is_lookup [Collection_lookup doi] = [Collection_lookup doi]" by blast
  from b h2 h3 have b2: "get_site_granules example_http ''07374000''
        ''Mississippi River at Baton Rouge, LA''
        ''30.44'' ''-91.19'' ''2023-08-01T00:00:00Z,2023-08-02T00:00:00Z''
       = granule_pages example_http ''07374000'' ''Mississippi River at Baton Rouge, LA''
           ''30.44'' ''-91.19'' ''2023-08-01T00:00:00Z,2023-08-02T00:00:00Z''
           (JStr ''C2408750690-LPCLOUD'') 1 [] [Collection_lookup doi]" by blast
  from h1 a1 h2 h3 b2 a3 show ?thesis by blast
qed

lemma granule_pages_run:
  assumes last: "feed_entry http (granule_request cid temporal slat slon n) = Inr e"
      "\<not> py_truthy e"
    and before: "\<forall>j. k \<le> j \<and> j < n \<longrightarrow>
       (\<exists>es. feed_entry http (granule_request cid temporal slat slon j) = Inr es \<and> py_truthy es)"
    and "k \<le> n"
  shows "\<exists>m printed res. k \<le> m \<and> m \<le> n
     \<and> granule_pages http sno snm slat slon temporal cid k arr sent
         = Some (sent @ map (granule_request cid temporal slat slon) [k..<Suc m], printed, res)
     \<and> (\<forall>gs. res = Inr gs \<longrightarrow> m = n)
     \<and> ((\<forall>j. k \<le> j \<and> j < n \<longrightarrow>
            (\<exists>recs. page_granules http sno snm slat slon temporal cid j = Inr recs))
        \<longrightarrow> res = Inr (arr @ concat (map (\<lambda>j. projr (page_granules http sno snm slat slon
                                                     temporal cid j)) [k..<n])))"
  using before \<open>k \<le> n\<close>
proof (induction "n - k" arbitrary: k arr sent)
  case 0
  then have kn: "k = n" by simp
  have "granule_pages http sno snm slat slon temporal cid n arr sent
          = Some (sent @ [granule_request cid temporal slat slon n],
                  if arr = [] then [''No granules found for site '' @ sno] else [],
                  Inr arr)"
    using last by (subst granule_pages.simps) (simp add: Let_def)
  then show ?case
    using kn by (intro exI [of _ n]) auto
next
  case (Suc d)
  then have lt: "k < n" by simp
  let ?req = "granule_request cid temporal slat slon"
  from Suc.prems(1) lt obtain es where es: "feed_entry http (?req k) = Inr es" "py_truthy es"
    by blast
  show ?case
  proof (cases "bind_err (py_iter es) (map_err (granule_of sno snm slat slon))")
    case (Inl err)
    have run: "granule_pages http sno snm slat slon temporal cid k arr sent
                 = Some (sent @ [?req k], [], Inl err)"
      using es Inl by (subst granule_pages.simps) (simp add: Let_def)
    have page: "page_granules http sno snm slat slon temporal cid k = Inl err"
      using es Inl by (simp add: page_granules_def)
    have "\<not> (\<forall>j. k \<le> j \<and> j < n \<longrightarrow>
            (\<exists>recs. page_granules http sno snm slat slon temporal cid j = Inr recs))"
      using page lt by auto
    with run lt show ?thesis
      by (intro exI [of _ k] exI [of _ "[]"] exI [of _ "Inl err"]) simp
  next
    case (Inr recs)
    have step: "granule_pages http sno snm slat slon temporal cid k arr sent
                 = granule_pages http sno snm slat slon temporal cid (Suc k) (arr @ recs)
                     (sent @ [?req k])"
      using es Inr by (subst granule_pages.simps) (simp add: Let_def)
    have page: "page_granules http sno snm slat slon temporal cid k = Inr recs"
      using es Inr by (simp add: page_granules_def)
    have d: "d = n - Suc k" using Suc.hyps(2) by simp
    have before': "\<forall>j. Suc k \<le> j \<and> j < n \<longrightarrow>
       (\<exists>es. feed_entry http (?req j) = Inr es \<and> py_truthy es)"
      using Suc.prems(1) by auto
    have le: "Suc k \<le> n" using lt by simp
    from Suc.hyps(1) [OF d before' le, of "arr @ recs" "sent @ [?req k]"]
    obtain m printed res where m: "Suc k \<le> m" "m \<le> n"
      and run: "granule_pages http sno snm slat slon temporal cid (Suc k) (arr @ recs)
                  (sent @ [?req k])
                = Some ((sent @ [?req k]) @ map ?req [Suc k..<Suc m], printed, res)"
      and ok: "\<forall>gs. res = Inr gs \<longrightarrow> m = n"
      and all: "(\<forall>j. Suc k \<le> j \<and> j < n \<longrightarrow>
            (\<exists>recs. page_granules http sno snm slat slon temporal cid j = Inr recs))
        \<longrightarrow> res = Inr ((arr @ recs) @ concat (map (\<lambda>j. projr (page_granules http sno snm slat
                                        slon temporal cid j)) [Suc k..<n]))"
      by blast
    have upt: "[k..<Suc m] = k # [Suc k..<Suc m]"
      using m by (simp add: upt_conv_Cons)
    have upt': "[k..<n] = k # [Suc k..<n]"
      using lt by (simp add: upt_conv_Cons)
    have run': "granule_pages http sno snm slat slon temporal cid k arr sent
                 = Some (sent @ map ?req [k..<Suc m], printed, res)"
      using step run upt by simp
    have all': "(\<forall>j. k \<le> j \<and> j < n \<longrightarrow>
            (\<exists>recs. page_granules http sno snm slat slon temporal cid j = Inr recs))
        \<longrightarrow> res = Inr (arr @ concat (map (\<lambda>j. projr (page_granules http sno snm slat slon
                                                     temporal cid j)) [k..<n]))"
      using all page upt' by auto
    from m run' ok all' show ?thesis
      by (intro exI [of _ m] exI [of _ printed] exI [of _ res]) simp
  qed
qed

text \<open>
  C7. With the catalog id resolved, let page \<open>n\<close> be the first page of the granule search
  whose entry list is empty, every page before it having a non-empty one. Then
  \<^verbatim>\<open>get_site_granules\<close> ends. After the lookup it has queried the pages 1, 2, ..., \<open>m\<close> in
  this order, each with page size 2000, for some \<open>m\<close> up to \<open>n\<close>; when it returns a list it
  has stopped at \<open>n\<close>, the first empty page, and not before; and when every page before
  \<open>n\<close> converts to records without an exception it returns the records of the pages
  1, ..., \<open>n - 1\<close> in order.
\<close>

theorem pages_until_first_empty:
  assumes "concept_id_of http = Inr cid" and "1 \<le> n"
    and "feed_entry http (granule_request cid temporal slat slon n) = Inr e"
    and "\<not> py_truthy e"
    and "\<forall>j. 1 \<le> j \<and> j < n \<longrightarrow>
       (\<exists>es. feed_entry http (granule_request cid temporal slat slon j) = Inr es \<and> py_truthy es)"
  shows "\<exists>m printed res. 1 \<le> m \<and> m \<le> n
     \<and> get_site_granules http sno snm slat slon temporal
         = Some (Collection_lookup doi
                   # map (\<lambda>j. Granule_search cid 2000 j temporal (slon @ '','' @ slat))
                       [1..<Suc m],
                 printed, res)
     \<and> (\<forall>gs. res = Inr gs \<longrightarrow> m = n)
     \<and> ((\<forall>j. 1 \<le> j \<and> j < n \<longrightarrow>
            (\<exists>recs. page_granules http sno snm slat slon temporal cid j = Inr recs))
        \<longrightarrow> res = Inr (concat (map (\<lambda>j. projr (page_granules http sno snm slat slon
                                               temporal cid j)) [1..<n])))"
proof -
  have req: "granule_request cid temporal slat slon
               = (\<lambda>j. Granule_search cid 2000 j temporal (slon @ '','' @ slat))"
    by (rule ext) (simp add: granule_request_def page_size_def)
  have start: "get_site_granules http sno snm slat slon temporal
                 = granule_pages http sno snm slat slon temporal cid 1 [] [Collection_lookup doi]"
    using assms(1) by (simp add: get_site_granules_def)
  from granule_pages_run [OF assms(3) assms(4) assms(5) assms(2),
         of sno snm "[]" "[Collection_lookup doi]"]
  show ?thesis
    unfolding start req by simp
qed

theorem pages_until_first_empty_witness:
  "concept_id_of example_http = Inr (JStr ''C2408750690-LPCLOUD'')
   \<and> (1::nat) \<le> 2
   \<and> feed_entry example_http
        (granule_request (JStr ''C2408750690-LPCLOUD'')
           ''2023-08-01T00:00:00Z,2023-08-02T00:00:00Z'' ''30.44'' ''-91.19'' 2) = Inr (JArr [])
   \<and> \<not> py_truthy (JArr [])
   \<and> feed_entry example_http
        (granule_request (JStr ''C2408750690-LPCLOUD'')
           ''2023-08-01T00:00:00Z,2023-08-02T00:00:00Z'' ''30.44'' ''-91.19'' 1)
       = Inr (JArr example_entries)
   \<and> py_truthy (JArr example_entries)
   \<and> (\<exists>m printed res. 1 \<le> m \<and> m \<le> 2
     \<and> get_site_granules example_http ''07374000'' ''Mississippi River at Baton Rouge, LA''
          ''30.44'' ''-91.19'' ''2023-08-01T00:00:00Z,2023-08-02T00:00:00Z''
         = Some (Collection_lookup doi
                   # map (\<lambda>j. Granule_search (JStr ''C2408750690-LPCLOUD'') 2000 j
                              ''2023-08-01T00:00:00Z,2023-08-02T00:00:00Z''
                              (''-91.19'' @ '','' @ ''30.44''))
                       [1..<Suc m],
                 printed, res)
     \<and> (\<forall>gs. res = Inr gs \<longrightarrow> m = 2)
     \<and> ((\<forall>j. 1 \<le> j \<and> j < 2 \<longrightarrow>
            (\<exists>recs. page_granules example_http ''07374000''
                       ''Mississippi River at Baton Rouge, LA'' ''30.44'' ''-91.19''
                       ''2023-08-01T00:00:00Z,2023-08-02T00:00:00Z''
                       (JStr ''C2408750690-LPCLOUD'') j = Inr recs))
        \<longrightarrow> res = Inr (concat (map (\<lambda>j. projr (page_granules example_http ''07374000''
                       ''Mississippi River at Baton Rouge, LA'' ''30.44'' ''-91.19''
                       ''2023-08-01T00:00:00Z,2023-08-02T00:00:00Z''
                       (JStr ''C2408750690-LPCLOUD'') j)) [1..<2]))))"
proof -
  have h1: "concept_id_of example_http = Inr (JStr ''C2408750690-LPCLOUD'')"
    by code_simp
  have h2: "(1::nat) \<le> 2" by simp
  have h3: "feed_entry example_http
        (granule_request (JStr ''C2408750690-LPCLOUD'')
           ''2023-08-01T00:00:00Z,2023-08-02T00:00:00Z'' ''30.44'' ''-91.19'' 2) = Inr (JArr [])"
    by code_simp
  have h4: "\<not> py_truthy (JArr [])" by simp
  have p1: "feed_entry example_http
        (granule_request (JStr ''C2408750690-LPCLOUD'')
           ''2023-08-01T00:00:00Z,2023-08-02T00:00:00Z'' ''30.44'' ''-91.19'' 1)
       = Inr (JArr example_entries)"
    by code_simp
  have p2: "py_truthy (JArr example_entries)" by code_simp
  have h5: "\<forall>j. 1 \<le> j \<and> j < 2 \<longrightarrow>
       (\<exists>es. feed_entry example_http
          (granule_request (JStr ''C2408750690-LPCLOUD'')
             ''2023-08-01T00:00:00Z,2023-08-02T00:00:00Z'' ''30.44'' ''-91.19'' j) = Inr es
          \<and> py_truthy es)"
  proof (intro allI impI)
    fix j :: nat
    assume "1 \<le> j \<and> j < 2"
    then have "j = 1" by simp
    with p1 p2 show "\<exists>es. feed_entry example_http
          (granule_request (JStr ''C2408750690-LPCLOUD'')
             ''2023-08-01T00:00:00Z,2023-08-02T00:00:00Z'' ''30.44'' ''-91.19'' j) = Inr es
          \<and> py_truthy es"
      by blast
  qed
  from pages_until_first_empty [OF h1 h2 h3 h4 h5,
         of "''07374000''" "''Mississippi River at Baton Rouge, LA''"]
       h1 h2 h3 h4 p1 p2
  show ?thesis by blast
qed

section \<open>Properties of the site locator\<close>








end
